theory Spec2Isabelle
  imports Complex_Main
begin

section \<open>Arrays\<close>

text \<open>
  The arrays of \<^verbatim>\<open>variational_families.py\<close> are two-dimensional: an \<open>M \<times> N\<close> array is the
  list of its \<open>M\<close> rows, a column vector is an \<open>M \<times> 1\<close> array. Entries are real numbers, so
  every statement below is one of exact arithmetic; rounding is not modelled. The array
  operations are the ones of the numerical library at the shapes section 3 of the
  specification declares; what the library does on arrays of other shapes (raising or
  broadcasting) is not represented, and the theorems state the shapes they need.
\<close>

type_synonym vec = "real list"
type_synonym mat = "real list list"


definition dot :: "vec \<Rightarrow> vec \<Rightarrow> real" where
  "dot xs ys = sum_list (map2 (*) xs ys)"

text \<open>\<^verbatim>\<open>A.T\<close>\<close>

definition mT :: "mat \<Rightarrow> mat" where
  "mT A = (case A of [] \<Rightarrow> [] | r # _ \<Rightarrow> map (\<lambda>j. map (\<lambda>row. row ! j) A) [0..<length r])"

text \<open>\<^verbatim>\<open>jnp.matmul(A, B)\<close>\<close>

definition matmul :: "mat \<Rightarrow> mat \<Rightarrow> mat" where
  "matmul A B = map (\<lambda>r. map (dot r) (mT B)) A"

text \<open>\<^verbatim>\<open>A + B\<close>, \<^verbatim>\<open>A - B\<close> and \<^verbatim>\<open>A * c\<close> on arrays of equal shape.\<close>

definition madd :: "mat \<Rightarrow> mat \<Rightarrow> mat" where
  "madd A B = map2 (map2 (+)) A B"

definition msub :: "mat \<Rightarrow> mat \<Rightarrow> mat" where
  "msub A B = map2 (map2 (-)) A B"

definition smul :: "mat \<Rightarrow> real \<Rightarrow> mat" where
  "smul A c = map (map (\<lambda>a. a * c)) A"

text \<open>
  Modelled from the spec: \<^verbatim>\<open>I\<close> of \<^verbatim>\<open>utils.py\<close>, which is not part of the sources at hand.
  The specification writes \<open>jitter\<cdot>I(M)\<close> for its use: \<^verbatim>\<open>I(n)\<close> is the \<open>n \<times> n\<close> identity matrix.
\<close>

definition I_mat :: "nat \<Rightarrow> mat" where
  "I_mat n = map (\<lambda>i. map (\<lambda>j. if i = j then 1 else 0) [0..<n]) [0..<n]"

text \<open>\<^verbatim>\<open>jnp.atleast_1d(x.squeeze())\<close> of a column: the vector of its entries.\<close>

definition squeeze :: "mat \<Rightarrow> vec" where
  "squeeze A = concat A"

text \<open>\<^verbatim>\<open>jnp.tril\<close>: the entries above the diagonal are replaced by zero.\<close>

definition tril :: "mat \<Rightarrow> mat" where
  "tril A = map (\<lambda>(i, r). map (\<lambda>(j, a). if j \<le> i then a else 0) (enumerate 0 r)) (enumerate 0 A)"

section \<open>The linear-algebra library\<close>

datatype error = NumericalError

text \<open>
  \<^verbatim>\<open>jsp.linalg.solve_triangular(L, B, lower=True)\<close>: forward substitution, for all the columns
  of the right-hand side at once. The first row of the solution is the first row of \<open>B\<close>
  divided by the first diagonal entry; it is then eliminated from the rows below. Only the
  lower triangle of \<open>L\<close> is read.
\<close>

function solve_lower :: "mat \<Rightarrow> mat \<Rightarrow> mat" where
  "solve_lower (r # R) (b # B) =
     (let x = map (\<lambda>bj. bj / hd r) b
      in x # solve_lower (map tl R) (map2 (\<lambda>r' b'. map2 (\<lambda>bj xj. bj - hd r' * xj) b' x) R B))"
| "solve_lower [] B = []"
| "solve_lower (r # R) [] = []"
  by pat_completeness auto
termination
  by (relation "measure (\<lambda>(L, B). length L)") auto

text \<open>
  \<^verbatim>\<open>lower=False\<close>: backward substitution, which is forward substitution on the system with
  the order of its rows and of its unknowns reversed.
\<close>

definition solve_upper :: "mat \<Rightarrow> mat \<Rightarrow> mat" where
  "solve_upper U B = rev (solve_lower (rev (map rev U)) (rev B))"

definition solve_triangular :: "mat \<Rightarrow> mat \<Rightarrow> bool \<Rightarrow> mat" where
  "solve_triangular a b lower = (if lower then solve_lower a b else solve_upper a b)"

text \<open>
  \<^verbatim>\<open>jnp.linalg.cholesky\<close>. The library symmetrises its argument, \<open>(A + A\<^sup>T) / 2\<close>, and
  factorises the result; the factorisation fails when a pivot is not positive. The failure
  (a factor filled with not-a-number in the library) is the error value here: nothing computed
  from a failed factor is an ordinary number.
\<close>

definition symmetrize :: "mat \<Rightarrow> mat" where
  "symmetrize A = smul (madd A (mT A)) (1 / 2)"

function chol_lower :: "mat \<Rightarrow> error + mat" where
  "chol_lower [] = Inr []"
| "chol_lower (r # R) =
     (if hd r \<le> 0 then Inl NumericalError
      else let l = sqrt (hd r);
               v = map (\<lambda>r'. hd r' / l) R;
               S = map2 (\<lambda>vi r'. map2 (\<lambda>vj c. c - vi * vj) v (tl r')) v R
           in case chol_lower S of
                Inl e \<Rightarrow> Inl e
              | Inr L' \<Rightarrow> Inr ((l # replicate (length R) 0) # map2 (#) v L'))"
  by pat_completeness auto
termination
  by (relation "measure length") auto

definition cholesky :: "mat \<Rightarrow> error + mat" where
  "cholesky A = chol_lower (symmetrize A)"

section \<open>Collaborators of the variational families\<close>

text \<open>
  Modelled from the spec: the prior process of \<^verbatim>\<open>gps.py\<close>, which is not part of the
  sources at hand. It pairs a covariance function with a mean function (section 3); the
  kernel is called as \<^verbatim>\<open>kernel(x, y, params)\<close> on two input points.
\<close>

record ('x, 'kp, 'mp) prior =
  kernel :: "'x \<Rightarrow> 'x \<Rightarrow> 'kp \<Rightarrow> real"
  mean_point :: "'x \<Rightarrow> 'mp \<Rightarrow> real"

text \<open>
  Modelled from the spec: \<^verbatim>\<open>gram\<close> of \<^verbatim>\<open>kernels.py\<close>, which is not part of the sources at
  hand. Section 6: \<^verbatim>\<open>gram(kernel, X, kernel_params)\<close> is the \<open>|X| \<times> |X|\<close> matrix of the kernel on
  the points of \<open>X\<close>.
\<close>

definition gram :: "('x \<Rightarrow> 'x \<Rightarrow> 'kp \<Rightarrow> real) \<Rightarrow> 'x list \<Rightarrow> 'kp \<Rightarrow> mat" where
  "gram k X kp = map (\<lambda>x. map (\<lambda>y. k x y kp) X) X"

text \<open>
  Modelled from the spec: \<^verbatim>\<open>cross_covariance\<close> of \<^verbatim>\<open>kernels.py\<close>, which is not part of the
  sources at hand. Section 6: \<^verbatim>\<open>cross_covariance(kernel, X1, X2, kernel_params)\<close> is the
  \<open>|X1| \<times> |X2|\<close> matrix of the kernel between the points of \<open>X1\<close> and of \<open>X2\<close>, so that
  \<^verbatim>\<open>Kzt\<close> has one row for each inducing input, as the triangular solve against \<open>Lz\<close> needs.
  (The test file of the sources calls an earlier form of the function, without the parameter
  argument that the families pass.)
\<close>

definition cross_covariance :: "('x \<Rightarrow> 'x \<Rightarrow> 'kp \<Rightarrow> real) \<Rightarrow> 'x list \<Rightarrow> 'x list \<Rightarrow> 'kp \<Rightarrow> mat" where
  "cross_covariance k X1 X2 kp = map (\<lambda>x. map (\<lambda>y. k x y kp) X2) X1"

text \<open>
  Modelled from the spec: the mean-function abstraction, which is not part of the sources at
  hand. Section 6: \<^verbatim>\<open>mean_function(X, mean_params)\<close> is the \<open>|X| \<times> 1\<close> column of the prior
  means of the points of \<open>X\<close>.
\<close>

definition mean_function :: "('x, 'kp, 'mp) prior \<Rightarrow> 'x list \<Rightarrow> 'mp \<Rightarrow> mat" where
  "mean_function p X mp = map (\<lambda>x. [mean_point p x mp]) X"

text \<open>
  The transforms that the constructor registers: \<^verbatim>\<open>Identity\<close> of \<^verbatim>\<open>config.py\<close>, and the two
  chains \<^verbatim>\<open>FillDiagonal\<close> (softplus, then the embedding of a vector as a diagonal matrix) and
  \<^verbatim>\<open>FillTriangular\<close> that the module defines. Only their identity matters here.
\<close>

datatype transform = Identity | FillDiagonal | FillTriangular

text \<open>
  Modelled from the spec: the parameter-schema registry of \<^verbatim>\<open>config.py\<close>, which is not part
  of the sources at hand. Section 6: \<^verbatim>\<open>register(name, transform)\<close>, side-effecting and
  process-wide. The registry is passed explicitly; \<^verbatim>\<open>add_parameter\<close> returns it with the
  transform recorded under the name.
\<close>

type_synonym registry = "string \<rightharpoonup> transform"

definition add_parameter :: "string \<Rightarrow> transform \<Rightarrow> registry \<Rightarrow> registry" where
  "add_parameter param_name t reg = reg(param_name \<mapsto> t)"

section \<open>The distributions\<close>

text \<open>
  The multivariate normal distributions of the distribution library, as far as the families
  use them. \<^verbatim>\<open>MultivariateNormalTri(loc, scale_tri)\<close> keeps the lower triangle of its scale,
  \<^verbatim>\<open>MultivariateNormalDiag(loc)\<close> has the unit scale diagonal, and
  \<^verbatim>\<open>MultivariateNormalFullCovariance(loc, covariance_matrix)\<close> is what \<^verbatim>\<open>predict\<close> returns.
\<close>

datatype scale = ScaleTri mat | ScaleDiag vec

record mvn_linop =
  loc :: vec
  scale_op :: scale

definition MultivariateNormalTri :: "vec \<Rightarrow> mat \<Rightarrow> mvn_linop" where
  "MultivariateNormalTri l scale_tri = \<lparr>loc = l, scale_op = ScaleTri (tril scale_tri)\<rparr>"

definition MultivariateNormalDiag :: "vec \<Rightarrow> mvn_linop" where
  "MultivariateNormalDiag l = \<lparr>loc = l, scale_op = ScaleDiag (replicate (length l) 1)\<rparr>"

record mvn_full =
  mean :: vec
  covariance :: mat

definition MultivariateNormalFullCovariance :: "vec \<Rightarrow> mat \<Rightarrow> mvn_full" where
  "MultivariateNormalFullCovariance l c = \<lparr>mean = l, covariance = c\<rparr>"

text \<open>
  \<^verbatim>\<open>kl_divergence\<close> of two such distributions, the way the library computes it from the two
  scales \<open>A\<close> (of the first distribution) and \<open>B\<close> (of the second):
  \<open>log|det B| - log|det A| + (- k + \<parallel>B\<^sup>-\<^sup>1 A\<parallel>\<^sup>2 + \<parallel>B\<^sup>-\<^sup>1 (loc\<^sub>2 - loc\<^sub>1)\<parallel>\<^sup>2) / 2\<close>, with the squared
  Frobenius norm, \<open>B\<^sup>-\<^sup>1\<close> applied by a triangular solve (a division for a diagonal scale) and
  the determinant of a scale read off its diagonal.
\<close>

definition diagonal :: "mat \<Rightarrow> vec" where
  "diagonal A = map (\<lambda>(i, r). r ! i) (enumerate 0 A)"

fun scale_matrix :: "scale \<Rightarrow> mat" where
  "scale_matrix (ScaleTri L) = L"
| "scale_matrix (ScaleDiag d) = map (\<lambda>(i, a). map (\<lambda>j. if i = j then a else 0) [0..<length d]) (enumerate 0 d)"

fun scale_inverse :: "scale \<Rightarrow> mat \<Rightarrow> mat" where
  "scale_inverse (ScaleTri L) X = solve_lower L X"
| "scale_inverse (ScaleDiag d) X = map2 (\<lambda>a r. map (\<lambda>x. x / a) r) d X"

fun log_abs_det :: "scale \<Rightarrow> real" where
  "log_abs_det (ScaleTri L) = sum_list (map (\<lambda>a. ln \<bar>a\<bar>) (diagonal L))"
| "log_abs_det (ScaleDiag d) = sum_list (map (\<lambda>a. ln \<bar>a\<bar>) d)"

definition squared_frobenius_norm :: "mat \<Rightarrow> real" where
  "squared_frobenius_norm X = sum_list (map (\<lambda>r. sum_list (map (\<lambda>x. x * x) r)) X)"

definition kl_divergence :: "mvn_linop \<Rightarrow> mvn_linop \<Rightarrow> real" where
  "kl_divergence dist1 dist2 =
     (let num_dims = length (loc dist1);
          diff_log_abs_det = log_abs_det (scale_op dist2) - log_abs_det (scale_op dist1);
          b_inv_a = scale_inverse (scale_op dist2) (scale_matrix (scale_op dist1));
          diff_mean_expanded = map2 (\<lambda>b a. [b - a]) (loc dist2) (loc dist1);
          b_inv_diff_mean = scale_inverse (scale_op dist2) diff_mean_expanded
      in diff_log_abs_det
         + (1 / 2) * (- real num_dims + squared_frobenius_norm b_inv_a
                      + squared_frobenius_norm b_inv_diff_mean))"

section \<open>The variational families\<close>

text \<open>
  The parameter dictionary: \<^verbatim>\<open>params["variational_family"]\<close> with its three arrays,
  \<^verbatim>\<open>params["kernel"]\<close> and \<^verbatim>\<open>params["mean_function"]\<close>. An input array of shape \<open>M \<times> D\<close> is
  the list of its \<open>M\<close> points.
\<close>

record 'x variational_family_params =
  p_inducing_inputs :: "'x list"
  p_variational_mean :: mat
  p_variational_root_covariance :: mat

record ('x, 'kp, 'mp) params =
  variational_family :: "'x variational_family_params"
  kernel_params :: 'kp
  mean_function_params :: 'mp

text \<open>
  The dataclass \<^verbatim>\<open>VariationalGaussian\<close>, which \<^verbatim>\<open>WhitenedVariationalGaussian\<close> inherits
  unchanged; \<^verbatim>\<open>num_inducing\<close> is the attribute that \<^verbatim>\<open>__post_init__\<close> sets.
\<close>

record ('x, 'kp, 'mp) variational_gaussian =
  prior :: "('x, 'kp, 'mp) prior"
  inducing_inputs :: "'x list"
  name :: string
  variational_mean :: "mat option"
  variational_root_covariance :: "mat option"
  diag :: bool
  jitter :: real
  num_inducing :: nat

definition post_init ::
  "('x, 'kp, 'mp) variational_gaussian \<Rightarrow> registry \<Rightarrow> ('x, 'kp, 'mp) variational_gaussian \<times> registry" where
  "post_init self reg =
     (let self = self\<lparr>num_inducing := length (inducing_inputs self)\<rparr>;
          reg = add_parameter ''inducing_inputs'' Identity reg;
          m = num_inducing self;
          (self, reg) =
            (if variational_mean self = None
             then (self\<lparr>variational_mean := Some (replicate m [0])\<rparr>,
                   add_parameter ''variational_mean'' Identity reg)
             else (self, reg));
          (self, reg) =
            (if variational_root_covariance self = None
             then (self\<lparr>variational_root_covariance := Some (I_mat m)\<rparr>,
                   if diag self
                   then add_parameter ''variational_root_covariance'' FillDiagonal reg
                   else add_parameter ''variational_root_covariance'' FillTriangular reg)
             else (self, reg))
      in (self, reg))"

text \<open>\<^verbatim>\<open>VariationalGaussian.prior_kl\<close>\<close>

definition prior_kl ::
  "('x, 'kp, 'mp) variational_gaussian \<Rightarrow> ('x, 'kp, 'mp) params \<Rightarrow> error + real" where
  "prior_kl self params =
     (let mu = p_variational_mean (variational_family params);
          sqrt' = p_variational_root_covariance (variational_family params);
          m = num_inducing self;
          z = p_inducing_inputs (variational_family params);
          \<mu>z = mean_function (prior self) z (mean_function_params params);
          Kzz = gram (kernel (prior self)) z (kernel_params params);
          Kzz = madd Kzz (smul (I_mat m) (jitter self))
      in case cholesky Kzz of
           Inl e \<Rightarrow> Inl e
         | Inr Lz \<Rightarrow>
             (let qu = MultivariateNormalTri (squeeze mu) sqrt';
                  pu = MultivariateNormalTri (squeeze \<mu>z) Lz
              in Inr (kl_divergence qu pu)))"

text \<open>
  \<^verbatim>\<open>VariationalGaussian.predict\<close>: the factorisation is done when \<^verbatim>\<open>predict\<close> is called, and
  the function returned maps a batch of test inputs to the predictive distribution.
\<close>

definition predict ::
  "('x, 'kp, 'mp) variational_gaussian \<Rightarrow> ('x, 'kp, 'mp) params \<Rightarrow> error + ('x list \<Rightarrow> mvn_full)" where
  "predict self params =
     (let mu = p_variational_mean (variational_family params);
          sqrt' = p_variational_root_covariance (variational_family params);
          z = p_inducing_inputs (variational_family params);
          m = num_inducing self;
          Kzz = gram (kernel (prior self)) z (kernel_params params);
          Kzz = madd Kzz (smul (I_mat m) (jitter self))
      in case cholesky Kzz of
           Inl e \<Rightarrow> Inl e
         | Inr Lz \<Rightarrow>
             (let \<mu>z = mean_function (prior self) z (mean_function_params params)
              in Inr (\<lambda>test_inputs.
                   let t = test_inputs;
                       n_test = length t;
                       Ktt = gram (kernel (prior self)) t (kernel_params params);
                       Kzt = cross_covariance (kernel (prior self)) z t (kernel_params params);
                       \<mu>t = mean_function (prior self) t (mean_function_params params);
                       Lz_inv_Kzt = solve_triangular Lz Kzt True;
                       Kzz_inv_Kzt = solve_triangular (mT Lz) Lz_inv_Kzt False;
                       Ktz_Kzz_inv_sqrt = matmul (mT Kzz_inv_Kzt) sqrt';
                       mean = madd \<mu>t (matmul (mT Kzz_inv_Kzt) (msub mu \<mu>z));
                       covariance = madd (msub Ktt (matmul (mT Lz_inv_Kzt) Lz_inv_Kzt))
                                         (matmul Ktz_Kzz_inv_sqrt (mT Ktz_Kzz_inv_sqrt));
                       covariance = madd covariance (smul (I_mat n_test) (jitter self))
                   in MultivariateNormalFullCovariance (squeeze mean) covariance)))"

text \<open>\<^verbatim>\<open>WhitenedVariationalGaussian.prior_kl\<close>\<close>

definition whitened_prior_kl ::
  "('x, 'kp, 'mp) variational_gaussian \<Rightarrow> ('x, 'kp, 'mp) params \<Rightarrow> error + real" where
  "whitened_prior_kl self params =
     (let mu = p_variational_mean (variational_family params);
          sqrt' = p_variational_root_covariance (variational_family params);
          m = num_inducing self;
          qu = MultivariateNormalTri (squeeze mu) sqrt';
          pu = MultivariateNormalDiag (replicate m 0)
      in Inr (kl_divergence qu pu))"

text \<open>\<^verbatim>\<open>WhitenedVariationalGaussian.predict\<close>\<close>

definition whitened_predict ::
  "('x, 'kp, 'mp) variational_gaussian \<Rightarrow> ('x, 'kp, 'mp) params \<Rightarrow> error + ('x list \<Rightarrow> mvn_full)" where
  "whitened_predict self params =
     (let mu = p_variational_mean (variational_family params);
          sqrt' = p_variational_root_covariance (variational_family params);
          z = p_inducing_inputs (variational_family params);
          m = num_inducing self;
          Kzz = gram (kernel (prior self)) z (kernel_params params);
          Kzz = madd Kzz (smul (I_mat m) (jitter self))
      in case cholesky Kzz of
           Inl e \<Rightarrow> Inl e
         | Inr Lz \<Rightarrow>
             Inr (\<lambda>test_inputs.
                   let t = test_inputs;
                       n_test = length t;
                       Ktt = gram (kernel (prior self)) t (kernel_params params);
                       Kzt = cross_covariance (kernel (prior self)) z t (kernel_params params);
                       \<mu>t = mean_function (prior self) t (mean_function_params params);
                       Lz_inv_Kzt = solve_triangular Lz Kzt True;
                       Ktz_Lz_invT_sqrt = matmul (mT Lz_inv_Kzt) sqrt';
                       mean = madd \<mu>t (matmul (mT Lz_inv_Kzt) mu);
                       covariance = madd (msub Ktt (matmul (mT Lz_inv_Kzt) Lz_inv_Kzt))
                                         (matmul Ktz_Lz_invT_sqrt (mT Ktz_Lz_invT_sqrt));
                       covariance = madd covariance (smul (I_mat n_test) (jitter self))
                   in MultivariateNormalFullCovariance (squeeze mean) covariance))"

text \<open>The call \<^verbatim>\<open>predict(params)(test_inputs)\<close>, for either \<^verbatim>\<open>predict\<close>.\<close>

definition predict_at :: "error + ('x list \<Rightarrow> mvn_full) \<Rightarrow> 'x list \<Rightarrow> error + mvn_full" where
  "predict_at predict_fn t = (case predict_fn of Inl e \<Rightarrow> Inl e | Inr f \<Rightarrow> Inr (f t))"

section \<open>Notions of the specification\<close>














section \<open>Example instances\<close>

text \<open>
  A family on the two inducing inputs \<open>0\<close> and \<open>1\<close> of the real line, built with
  \<^verbatim>\<open>diag=True\<close> and explicit initial values, under a prior whose kernel is \<open>1/2\<close> on equal
  points and \<open>0\<close> elsewhere and whose mean is zero; with the jitter \<open>1/2\<close> the matrix
  \<open>Kzz + jitter\<cdot>I\<close> is the identity. The parameter dictionary hands it a dense
  lower-triangular root covariance.
\<close>

definition ex_prior :: "(real, unit, unit) prior" where
  "ex_prior = \<lparr>kernel = (\<lambda>x y kp. if x = y then 1 / 2 else 0), mean_point = (\<lambda>x mp. 0)\<rparr>"

definition ex_self :: "(real, unit, unit) variational_gaussian" where
  "ex_self = \<lparr>prior = ex_prior, inducing_inputs = [0, 1], name = ''Gaussian'',
     variational_mean = Some [[0], [0]], variational_root_covariance = Some [[1, 0], [0, 1]],
     diag = True, jitter = 1 / 2, num_inducing = 2\<rparr>"

definition ex_params :: "(real, unit, unit) params" where
  "ex_params = \<lparr>variational_family = \<lparr>p_inducing_inputs = [0, 1], p_variational_mean = [[0], [0]],
      p_variational_root_covariance = [[1, 0], [1, 1]]\<rparr>, kernel_params = (), mean_function_params = ()\<rparr>"








section \<open>Evaluation of the examples\<close>

lemma I_mat_1: "I_mat (Suc 0) = [[1]]"
  by (simp add: I_mat_def)

lemma I_mat_2: "I_mat 2 = [[1, 0], [0, 1]]"
  by (simp add: I_mat_def numeral_2_eq_2)

lemma cholesky_I_mat_2: "cholesky [[1, 0], [0, 1]] = Inr [[1, 0], [0, 1]]"
  by (simp add: cholesky_def symmetrize_def madd_def smul_def mT_def)

lemma ex_prior_kl: "prior_kl ex_self ex_params = Inr (1 / 2)"
  by (simp add: prior_kl_def ex_self_def ex_params_def ex_prior_def gram_def madd_def smul_def
      I_mat_2 mean_function_def cholesky_I_mat_2 kl_divergence_def MultivariateNormalTri_def
      tril_def squeeze_def diagonal_def squared_frobenius_norm_def Let_def)

lemma ex_predict:
  "predict_at (predict ex_self ex_params) [1] = Inr \<lparr>mean = [0], covariance = [[5 / 4]]\<rparr>"
  by (simp add: predict_at_def predict_def ex_self_def ex_params_def ex_prior_def gram_def
      madd_def smul_def I_mat_2 I_mat_1 mean_function_def cholesky_I_mat_2 cross_covariance_def
      solve_triangular_def solve_upper_def mT_def msub_def matmul_def dot_def
      MultivariateNormalFullCovariance_def squeeze_def Let_def)

lemma ex_whitened_prior_kl: "whitened_prior_kl ex_self ex_params = Inr (1 / 2)"
  by (simp add: whitened_prior_kl_def ex_self_def ex_params_def kl_divergence_def
      MultivariateNormalTri_def MultivariateNormalDiag_def tril_def squeeze_def diagonal_def
      squared_frobenius_norm_def Let_def numeral_2_eq_2)

lemma ex_whitened_predict:
  "predict_at (whitened_predict ex_self ex_params) [1] = Inr \<lparr>mean = [0], covariance = [[5 / 4]]\<rparr>"
  by (simp add: predict_at_def whitened_predict_def ex_self_def ex_params_def ex_prior_def gram_def
      madd_def smul_def I_mat_2 I_mat_1 mean_function_def cholesky_I_mat_2 cross_covariance_def
      solve_triangular_def mT_def msub_def matmul_def dot_def
      MultivariateNormalFullCovariance_def squeeze_def Let_def)

section \<open>Matrices by their entries\<close>













section \<open>Triangular solves\<close>












section \<open>The Cholesky factorisation\<close>



declare chol_lower.simps(2) [simp del]





































section \<open>The predictive distributions\<close>









section \<open>The divergence of the library\<close>














section \<open>Sign of the divergence\<close>
























section \<open>Shape of the predictive covariance\<close>
















section \<open>Construction\<close>

text \<open>
  C4: construction registers an unconstrained transform for each learnable array, also when
  initial values for the variational mean or root covariance are supplied. The constructor
  registers the transforms of the variational mean and of the root covariance only inside
  the branches that fill in a default: built from explicit initial values on an empty
  registry, the example family leaves a registry that holds the inducing inputs alone.
\<close>

theorem C4_supplied_arrays_not_registered:
  "snd (post_init ex_self Map.empty) = [''inducing_inputs'' \<mapsto> Identity]"
  by (simp add: post_init_def ex_self_def add_parameter_def)

section \<open>What the operations read\<close>

text \<open>
  C6, as the code has it: neither \<^verbatim>\<open>prior_kl\<close> nor \<^verbatim>\<open>predict\<close>, of either family, reads the
  \<^verbatim>\<open>diag\<close> flag. Whatever the flag, they compute the same result from the root covariance of
  the parameter dictionary; a dense root handed to a family built with \<^verbatim>\<open>diag=True\<close> is used
  as the dense root it is.
\<close>

theorem C6_diag_flag_not_consulted:
  "prior_kl (self\<lparr>diag := d\<rparr>) params = prior_kl self params
   \<and> predict (self\<lparr>diag := d\<rparr>) params = predict self params
   \<and> whitened_prior_kl (self\<lparr>diag := d\<rparr>) params = whitened_prior_kl self params
   \<and> whitened_predict (self\<lparr>diag := d\<rparr>) params = whitened_predict self params"
  by (simp add: prior_kl_def predict_def whitened_prior_kl_def whitened_predict_def Let_def
      cong: sum.case_cong)

text \<open>
  C6 as stated fails: the example family is built with \<^verbatim>\<open>diag=True\<close> and handed the dense
  root \<open>[[1, 0], [1, 1]]\<close>; both operations of both families return an ordinary result, and the
  predictive variance \<open>5/4\<close> at the test input \<open>1\<close> is the one of the dense root (the diagonal
  of that root gives \<open>1\<close>).
\<close>

theorem C6_dense_root_no_error:
  "diag ex_self
   \<and> p_variational_root_covariance (variational_family ex_params) = [[1, 0], [1, 1]]
   \<and> prior_kl ex_self ex_params = Inr (1 / 2)
   \<and> predict_at (predict ex_self ex_params) [1] = Inr \<lparr>mean = [0], covariance = [[5 / 4]]\<rparr>
   \<and> whitened_prior_kl ex_self ex_params = Inr (1 / 2)
   \<and> predict_at (whitened_predict ex_self ex_params) [1] = Inr \<lparr>mean = [0], covariance = [[5 / 4]]\<rparr>"
  by (simp add: ex_prior_kl ex_predict ex_whitened_prior_kl ex_whitened_predict)
     (simp add: ex_self_def ex_params_def)

text \<open>
  C10: the results of \<^verbatim>\<open>prior_kl\<close> and \<^verbatim>\<open>predict\<close> of either family depend on the parameter
  dictionary, the prior, the jitter and \<^verbatim>\<open>num_inducing\<close> only: two instances that agree on
  these three attributes give equal results on the same dictionary, whatever arrays (and
  whatever name and flag) they store.
\<close>

theorem C10_stored_arrays_not_read:
  assumes "prior self1 = prior self2" and "jitter self1 = jitter self2"
    and "num_inducing self1 = num_inducing self2"
  shows "prior_kl self1 params = prior_kl self2 params
       \<and> predict self1 params = predict self2 params
       \<and> whitened_prior_kl self1 params = whitened_prior_kl self2 params
       \<and> whitened_predict self1 params = whitened_predict self2 params"
  using assms
  by (simp add: prior_kl_def predict_def whitened_prior_kl_def whitened_predict_def Let_def
      cong: sum.case_cong)

theorem C10_stored_arrays_not_read_witness:
  "prior ex_self = prior (ex_self\<lparr>inducing_inputs := [5], variational_mean := None,
       variational_root_covariance := Some [[7]]\<rparr>)
   \<and> prior_kl ex_self ex_params
     = prior_kl (ex_self\<lparr>inducing_inputs := [5], variational_mean := None,
         variational_root_covariance := Some [[7]]\<rparr>) ex_params
   \<and> predict ex_self ex_params
     = predict (ex_self\<lparr>inducing_inputs := [5], variational_mean := None,
         variational_root_covariance := Some [[7]]\<rparr>) ex_params
   \<and> whitened_prior_kl ex_self ex_params
     = whitened_prior_kl (ex_self\<lparr>inducing_inputs := [5], variational_mean := None,
         variational_root_covariance := Some [[7]]\<rparr>) ex_params
   \<and> whitened_predict ex_self ex_params
     = whitened_predict (ex_self\<lparr>inducing_inputs := [5], variational_mean := None,
         variational_root_covariance := Some [[7]]\<rparr>) ex_params"
  using C10_stored_arrays_not_read [of ex_self "ex_self\<lparr>inducing_inputs := [5], variational_mean := None,
       variational_root_covariance := Some [[7]]\<rparr>" ex_params]
  by simp

section \<open>The predictive formulas\<close>







section \<open>Failure of the factorisation\<close>





section \<open>The whitened divergence\<close>




section \<open>The divergence is non-negative and vanishes at the prior\<close>







section \<open>The predictive covariance is symmetric with a non-negative diagonal\<close>






end
